theory Spec2Isabelle
  imports Main
begin

section \<open>JavaScript values, objects and exceptions\<close>

text \<open>
  The development embeds \<^verbatim>\<open>src/core/game.js\<close> (the \<^verbatim>\<open>Game\<close> normalizer with its
  closures \<^verbatim>\<open>getMove\<close> and \<^verbatim>\<open>processMove\<close>) and
  \<^verbatim>\<open>src/client/multiplayer/multiplayer.js\<close> (the \<^verbatim>\<open>SocketUpdate\<close> middleware).

  A JavaScript exception is a value of type \<open>error\<close>; a computation that may throw
  returns \<open>error + 'a\<close> with \<open>Inl\<close> for the exception. \<open>TypeError\<close> is what the
  language raises on a property access on \<^verbatim>\<open>undefined\<close>; \<open>Thrown\<close> is an exception
  raised by code outside the two files (a move body, the flow engine).
\<close>

datatype error = TypeError | Thrown string

text \<open>
  The values a move table can hold. \<open>'f\<close> is the type of callable bodies. A function is
  an object too and carries its own properties, as a plain object does; properties are kept
  in enumeration order.
\<close>

datatype 'f jsval =
    JUndefined
  | JNull
  | JBool bool
  | JNum int
  | JStr string
  | JFun 'f "(string \<times> 'f jsval) list"
  | JObj "(string \<times> 'f jsval) list"

text \<open>Truthiness, as the \<^verbatim>\<open>&&\<close> of line 151 of game.js tests it.\<close>

fun truthy :: "'f jsval \<Rightarrow> bool" where
  "truthy JUndefined = False"
| "truthy JNull = False"
| "truthy (JBool b) = b"
| "truthy (JNum n) = (n \<noteq> 0)"
| "truthy (JStr s) = (s \<noteq> [])"
| "truthy (JFun f ps) = True"
| "truthy (JObj ps) = True"

fun instanceof_Object :: "'f jsval \<Rightarrow> bool" where
  "instanceof_Object (JFun f ps) = True"
| "instanceof_Object (JObj ps) = True"
| "instanceof_Object v = False"

fun instanceof_Function :: "'f jsval \<Rightarrow> bool" where
  "instanceof_Function (JFun f ps) = True"
| "instanceof_Function v = False"

text \<open>
  \<^verbatim>\<open>v.k\<close> for a value that is an object or a function: the property when it is there,
  \<^verbatim>\<open>undefined\<close> otherwise. (It is only used behind \<^verbatim>\<open>instanceof Object\<close>.)
\<close>

fun get_prop :: "'f jsval \<Rightarrow> string \<Rightarrow> 'f jsval" where
  "get_prop (JFun f ps) k = (case map_of ps k of Some v \<Rightarrow> v | None \<Rightarrow> JUndefined)"
| "get_prop (JObj ps) k = (case map_of ps k of Some v \<Rightarrow> v | None \<Rightarrow> JUndefined)"
| "get_prop v k = JUndefined"

text \<open>
  An object used as a string-keyed table: its own properties in enumeration order, and
  the properties it inherits through its prototype chain. The operator \<^verbatim>\<open>in\<close> and the
  read \<^verbatim>\<open>t[k]\<close> see both; \<^verbatim>\<open>Object.getOwnPropertyNames\<close> and \<^verbatim>\<open>Object.keys\<close>
  see the own ones only.
\<close>

record 'v table =
  own :: "(string \<times> 'v) list"
  inherited :: "(string \<times> 'v) list"

definition own_keys :: "'v table \<Rightarrow> string list" where
  "own_keys t = map fst (own t)"

definition has_key :: "string \<Rightarrow> 'v table \<Rightarrow> bool" where
  "has_key k t = (k \<in> set (map fst (own t)) \<or> k \<in> set (map fst (inherited t)))"

definition table_get :: "'v table \<Rightarrow> string \<Rightarrow> 'v option" where
  "table_get t k =
     (case map_of (own t) k of Some v \<Rightarrow> Some v | None \<Rightarrow> map_of (inherited t) k)"

definition table_val :: "'f jsval table \<Rightarrow> string \<Rightarrow> 'f jsval" where
  "table_val t k = (case table_get t k of Some v \<Rightarrow> v | None \<Rightarrow> JUndefined)"

text \<open>
  What an object literal inherits: the members of \<^verbatim>\<open>Object.prototype\<close> (ECMAScript
  5.1, 15.2.4, and the legacy ones of annex B). All are functions, except \<^verbatim>\<open>__proto__\<close>,
  which reads as the prototype object; none has a property \<^verbatim>\<open>moves\<close> or \<^verbatim>\<open>impl\<close>.
  The bodies of the built-in functions are a parameter, \<open>native\<close>.
\<close>

definition Object_prototype :: "(string \<Rightarrow> 'f) \<Rightarrow> (string \<times> 'f jsval) list" where
  "Object_prototype native =
     map (\<lambda>k. (k, JFun (native k) []))
       [''constructor'', ''hasOwnProperty'', ''isPrototypeOf'', ''propertyIsEnumerable'',
        ''toLocaleString'', ''toString'', ''valueOf'',
        ''__defineGetter__'', ''__defineSetter__'', ''__lookupGetter__'', ''__lookupSetter__'']
     @ [(''__proto__'', JObj [])]"

text \<open>The literal \<^verbatim>\<open>{}\<close>.\<close>

definition empty_object :: "(string \<Rightarrow> 'f) \<Rightarrow> 'f jsval table" where
  "empty_object native = \<lparr>own = [], inherited = Object_prototype native\<rparr>"

section \<open>The data of game.js\<close>

text \<open>
  \<^verbatim>\<open>Ctx\<close>: the fields the two closures touch; every other field lives in the record
  extension. \<open>'p\<close> is the type of player identifiers (whatever the action carries).
\<close>

record 'p Ctx =
  phase :: string
  playerID :: 'p

text \<open>
  \<^verbatim>\<open>action.args\<close> is handed to \<^verbatim>\<open>Array.prototype.concat\<close>, which splices an array
  and appends anything else as one element.
\<close>

datatype 'a argsval = ArgArray "'a list" | ArgOther 'a

record ('a, 'p) action =
  type :: string
  args :: "'a argsval"
  playerID :: 'p

text \<open>
  A phase's configuration; \<^verbatim>\<open>moves\<close> is \<open>None\<close> when the property is
  \<^verbatim>\<open>undefined\<close>.
\<close>

datatype 'f PhaseConfig = PhaseConfig (moves: "'f jsval table option")

text \<open>The flow object, as far as game.js reads it.\<close>

record ('f, 'e) flow =
  processGameEvent :: "'e option"
  moveMap :: "'f jsval table option"

text \<open>
  Objects live in a store and are named by their address. \<^verbatim>\<open>ctx\<close> objects and game
  objects have a store each; a store is the list of its objects, an address is an index.
\<close>

type_synonym addr = nat

definition deref :: "'o list \<Rightarrow> addr \<Rightarrow> 'o option" where
  "deref h a = (if a < length h then Some (h ! a) else None)"

definition alloc :: "'o list \<Rightarrow> 'o \<Rightarrow> addr \<times> 'o list" where
  "alloc h obj = (length h, h @ [obj])"

text \<open>
  The function-valued properties \<^verbatim>\<open>setup\<close> and \<^verbatim>\<open>playerView\<close>: the arrow function
  that \<^verbatim>\<open>Game\<close> writes (\<^verbatim>\<open>() => ({})\<close>, \<^verbatim>\<open>G => G\<close>) or one the caller gave.
  \<^verbatim>\<open>processMove\<close> and \<^verbatim>\<open>getMove\<close> are the closures \<^verbatim>\<open>Game\<close> builds, which capture
  the variable \<^verbatim>\<open>game\<close> (an address), or any other value the caller gave.
\<close>

datatype 'u fnval = Default_fn | Given_fn 'u

datatype 'u closure = Closure addr | Foreign 'u

text \<open>
  The game object: \<^verbatim>\<open>GameConfig\<close> and the three properties the normalizer adds. A
  property is \<open>None\<close> when it is \<^verbatim>\<open>undefined\<close>.
\<close>

record ('f, 'e, 'u, 'pl) game =
  name :: "string option"
  setup_prop :: "'u fnval option"
  moves :: "'f jsval table option"
  playerView :: "'u fnval option"
  plugins :: "'pl list option"
  phases :: "'f PhaseConfig table option"
  flow :: "('f, 'e) flow option"
  processMove_prop :: "'u closure option"
  getMove_prop :: "'u closure option"
  moveNames_prop :: "string list option"

section \<open>getMove\<close>

text \<open>
  Lines 107-126 of game.js. The three conjuncts of the condition are evaluated left to
  right; the third reads \<^verbatim>\<open>.moves\<close> of \<^verbatim>\<open>game.phases[ctx.phase]\<close>, which throws when
  that is \<^verbatim>\<open>undefined\<close>. Inside the branch there is no \<^verbatim>\<open>else\<close>: a key missing from the
  move map falls through to \<^verbatim>\<open>return null\<close>. \<^verbatim>\<open>game\<close> is read when the closure
  runs.
\<close>

definition global_move :: "('f, 'e, 'u, 'pl, 'z) game_scheme \<Rightarrow> string \<Rightarrow> error + 'f jsval" where
  "global_move game nm =
     (case game.moves game of
        None \<Rightarrow> Inl TypeError
      | Some ms \<Rightarrow> if has_key nm ms then Inr (table_val ms nm) else Inr JNull)"

definition phase_move :: "('f, 'e, 'u, 'pl, 'z) game_scheme \<Rightarrow> string \<Rightarrow> string \<Rightarrow> error + 'f jsval" where
  "phase_move game ph nm =
     (let key = ph @ ''.'' @ nm in
      case flow game of
        None \<Rightarrow> Inl TypeError
      | Some fl \<Rightarrow>
          (case moveMap fl of
             None \<Rightarrow> Inl TypeError
           | Some mm \<Rightarrow> if has_key key mm then Inr (table_val mm key) else Inr JNull))"

definition getMove ::
  "('f, 'e, 'u, 'pl, 'z) game_scheme \<Rightarrow> ('p, 'y) Ctx_scheme \<Rightarrow> string \<Rightarrow> error + 'f jsval" where
  "getMove game ctx nm =
     (if phase ctx \<noteq> ''default'' then
        (case phases game of
           None \<Rightarrow> global_move game nm
         | Some ps \<Rightarrow>
             (case table_get ps (phase ctx) of
                None \<Rightarrow> Inl TypeError
              | Some pc \<Rightarrow>
                  (case PhaseConfig.moves pc of
                     None \<Rightarrow> global_move game nm
                   | Some pm \<Rightarrow> phase_move game (phase ctx) nm)))
      else global_move game nm)"

section \<open>processMove\<close>

text \<open>
  A move body receives \<^verbatim>\<open>G\<close>, the address of its \<^verbatim>\<open>ctx\<close> object and the remaining
  arguments; it runs in the store of \<^verbatim>\<open>ctx\<close> objects, which it may change, and returns
  the new \<^verbatim>\<open>G\<close> or throws.
\<close>

type_synonym ('g, 'a, 'c) movefn =
  "'g \<Rightarrow> addr \<Rightarrow> 'a list \<Rightarrow> 'c list \<Rightarrow> (error + 'g) \<times> 'c list"

text \<open>Lines 151-153: a record with a truthy \<^verbatim>\<open>impl\<close> is replaced by that property.\<close>

definition unwrap_impl :: "'f jsval \<Rightarrow> 'f jsval" where
  "unwrap_impl moveFn =
     (if instanceof_Object moveFn \<and> truthy (get_prop moveFn ''impl'')
      then get_prop moveFn ''impl'' else moveFn)"

text \<open>\<^verbatim>\<open>[G, ctxWithPlayerID].concat(action.args)\<close>, without its first two elements.\<close>

fun concat_args :: "'a argsval \<Rightarrow> 'a list" where
  "concat_args (ArgArray xs) = xs"
| "concat_args (ArgOther v) = [v]"

text \<open>
  Lines 148-163. \<^verbatim>\<open>FnWrap\<close> is imported from \<^verbatim>\<open>../plugins/main\<close>, which is not among
  the sources: it is a parameter, a function from a move body and the plugin list to the
  wrapped body. \<^verbatim>\<open>ctx\<close> is the address of the caller's object in the store \<open>h\<close>;
  \<^verbatim>\<open>{ ...ctx, playerID: action.playerID }\<close> allocates a new object.
\<close>

definition processMove ::
  "(('g, 'a, ('p, 'y) Ctx_scheme) movefn \<Rightarrow> 'pl list option \<Rightarrow> ('g, 'a, ('p, 'y) Ctx_scheme) movefn) \<Rightarrow>
   (('g, 'a, ('p, 'y) Ctx_scheme) movefn, 'e, 'u, 'pl, 'z) game_scheme \<Rightarrow>
   'g \<Rightarrow> ('a, 'p, 'x) action_scheme \<Rightarrow> addr \<Rightarrow> ('p, 'y) Ctx_scheme list \<Rightarrow>
   (error + 'g) \<times> ('p, 'y) Ctx_scheme list" where
  "processMove FnWrap game G act ctx h =
     (case deref h ctx of
        None \<Rightarrow> (Inl TypeError, h)
      | Some c \<Rightarrow>
          (case getMove game c (type act) of
             Inl e \<Rightarrow> (Inl e, h)
           | Inr m \<Rightarrow>
               (case unwrap_impl m of
                  JFun f ps \<Rightarrow>
                    (let (ctxWithPlayerID, h') = alloc h (c\<lparr>Ctx.playerID := action.playerID act\<rparr>);
                         as = concat_args (args act);
                         fn = FnWrap f (plugins game)
                     in fn G ctxWithPlayerID as h')
                | _ \<Rightarrow> (Inr G, h))))"


section \<open>The Game normalizer\<close>

text \<open>
  \<^verbatim>\<open>name.split('.')\<close>: the segments between the dots, at least one. \<open>cur\<close> is the
  segment being read.
\<close>

fun split_on :: "char \<Rightarrow> string \<Rightarrow> string \<Rightarrow> string list" where
  "split_on d cur [] = [cur]"
| "split_on d cur (c # cs) =
     (if c = d then cur # split_on d [] cs else split_on d (cur @ [c]) cs)"

definition split_dot :: "string \<Rightarrow> string list" where
  "split_dot s = split_on (CHR ''.'') [] s"

text \<open>\<^verbatim>\<open>s[s.length - 1]\<close> for \<^verbatim>\<open>s = name.split('.')\<close>.\<close>

definition last_segment :: "string \<Rightarrow> string" where
  "last_segment nm = last (split_dot nm)"

text \<open>
  A \<^verbatim>\<open>Set\<close> of strings is the list of its elements in insertion order;
  \<^verbatim>\<open>add\<close> leaves the set alone when the element is there.
\<close>

definition set_add :: "string list \<Rightarrow> string \<Rightarrow> string list" where
  "set_add s x = (if x \<in> set s then s else s @ [x])"

text \<open>
  Lines 132-139 and the spread of line 146. Both tables are plain objects whose own
  properties are enumerable, so \<^verbatim>\<open>Object.getOwnPropertyNames\<close> and
  \<^verbatim>\<open>Object.keys\<close> list the own keys.
\<close>

definition moveNames :: "'v table \<Rightarrow> 'w table \<Rightarrow> string list" where
  "moveNames ms mm =
     (let moveNameSet = [];
          moveNameSet = fold (\<lambda>nm s. set_add s nm) (own_keys ms) moveNameSet;
          moveNameSet = fold (\<lambda>nm s. set_add s (last_segment nm)) (own_keys mm) moveNameSet
      in moveNameSet)"

text \<open>Lines 101-105: each missing property is written onto the object.\<close>

definition fill_defaults ::
  "(string \<Rightarrow> 'f) \<Rightarrow> ('f, 'e, 'u, 'pl, 'z) game_scheme \<Rightarrow> ('f, 'e, 'u, 'pl, 'z) game_scheme" where
  "fill_defaults native game =
     (let game = (if name game = None then game\<lparr>name := Some ''default''\<rparr> else game);
          game = (if setup_prop game = None then game\<lparr>setup_prop := Some Default_fn\<rparr> else game);
          game = (if game.moves game = None
                  then game\<lparr>game.moves := Some (empty_object native)\<rparr> else game);
          game = (if playerView game = None then game\<lparr>playerView := Some Default_fn\<rparr> else game);
          game = (if plugins game = None then game\<lparr>plugins := Some []\<rparr> else game)
      in game)"

text \<open>Line 128: \<^verbatim>\<open>!game.flow || game.flow.processGameEvent === undefined\<close>.\<close>

definition lacks_flow :: "('f, 'e, 'u, 'pl, 'z) game_scheme \<Rightarrow> bool" where
  "lacks_flow game =
     (case flow game of None \<Rightarrow> True | Some fl \<Rightarrow> processGameEvent fl = None)"

text \<open>
  Lines 128-130: a game without a flow object that has \<^verbatim>\<open>processGameEvent\<close> gets the
  one \<^verbatim>\<open>FlowWithPhases(game)\<close> builds. \<^verbatim>\<open>FlowWithPhases\<close> is imported from
  \<^verbatim>\<open>./flow\<close>, which is not among the sources: it is a parameter, a function from the
  game object to a flow object or an exception, and it is taken not to write to its
  argument.
\<close>

definition attach_flow ::
  "(('f, 'e, 'u, 'pl, 'z) game_scheme \<Rightarrow> error + ('f, 'e) flow) \<Rightarrow>
   ('f, 'e, 'u, 'pl, 'z) game_scheme \<Rightarrow> error + ('f, 'e, 'u, 'pl, 'z) game_scheme" where
  "attach_flow FlowWithPhases game =
     (if lacks_flow game
      then (case FlowWithPhases game of
              Inl e \<Rightarrow> Inl e
            | Inr fl \<Rightarrow> Inr (game\<lparr>flow := Some fl\<rparr>))
      else Inr game)"

text \<open>
  Lines 94-165. \<^verbatim>\<open>game\<close> is the address of the caller's object in the store \<open>h\<close>; the
  result is the returned address, or the exception, and the store as the call leaves it.
  The writes of lines 101-105 and 129 go to the caller's object; the object literal of
  line 141 is a new object, a copy of \<^verbatim>\<open>game\<close> with three properties replaced.
\<close>

definition Game ::
  "(('f, 'e, 'u, 'pl, 'z) game_scheme \<Rightarrow> error + ('f, 'e) flow) \<Rightarrow> (string \<Rightarrow> 'f) \<Rightarrow>
   ('f, 'e, 'u, 'pl, 'z) game_scheme list \<Rightarrow> addr \<Rightarrow>
   (error + addr) \<times> ('f, 'e, 'u, 'pl, 'z) game_scheme list" where
  "Game FlowWithPhases native h game =
     (case deref h game of
        None \<Rightarrow> (Inl TypeError, h)
      | Some g0 \<Rightarrow>
          if processMove_prop g0 \<noteq> None then (Inr game, h)
          else
            (let g1 = fill_defaults native g0
             in case attach_flow FlowWithPhases g1 of
                  Inl e \<Rightarrow> (Inl e, h[game := g1])
                | Inr g2 \<Rightarrow>
                    (let h2 = h[game := g2]
                     in case game.moves g2 of
                          None \<Rightarrow> (Inl TypeError, h2)
                        | Some ms \<Rightarrow>
                            (case flow g2 of
                               None \<Rightarrow> (Inl TypeError, h2)
                             | Some fl \<Rightarrow>
                                 (case moveMap fl of
                                    None \<Rightarrow> (Inl TypeError, h2)
                                  | Some mm \<Rightarrow>
                                      (let (r, h3) =
                                             alloc h2
                                               (g2\<lparr>getMove_prop := Some (Closure game),
                                                   moveNames_prop := Some (moveNames ms mm),
                                                   processMove_prop := Some (Closure game)\<rparr>)
                                       in (Inr r, h3)))))))"

section \<open>The multiplayer middleware\<close>

text \<open>
  The store's state with its property \<^verbatim>\<open>_id\<close>, and an action object with the three
  properties the middleware writes, \<^verbatim>\<open>_id\<close>, \<^verbatim>\<open>_gameid\<close> and \<^verbatim>\<open>_player\<close>
  (\<open>None\<close> while the property is not there). \<^verbatim>\<open>player\<close> is \<^verbatim>\<open>null\<close> (\<open>None\<close>) or
  an identifier.
\<close>

record 'i State =
  state_id :: 'i

record 'i redux_action =
  type :: string
  action_id :: "'i option"
  action_gameid :: "string option"
  action_player :: "string option option"

text \<open>
  Action objects live in a store of their own, and a dispatched action is the address of
  its object: the middleware writes to the object it was given, and whoever holds the
  address sees the writes. What \<^verbatim>\<open>socket.emit\<close> is given is that address
  (\<open>Action_ref\<close>), or an identifier.
\<close>

datatype payload = Action_ref addr | Id_payload string

text \<open>
  What the middleware works on: the store's current state, the action objects, and the
  \<^verbatim>\<open>Multiplayer\<close> instance, that is \<^verbatim>\<open>gameid\<close>, \<^verbatim>\<open>player\<close> and \<^verbatim>\<open>socket\<close>. A
  socket is the list of the messages sent on it, oldest first; \<open>None\<close> is a
  \<^verbatim>\<open>socket\<close> that is \<^verbatim>\<open>null\<close>.
\<close>

record ('s, 'a) world =
  state :: 's
  actions :: "'a list"
  gameid :: string
  player :: "string option"
  socket :: "(string \<times> payload) list option"

text \<open>
  The constructor (lines 14-24), beside a store whose state is \<open>s\<close> and the action
  objects \<open>acts\<close>. \<open>socketImpl\<close> is \<open>None\<close> when the argument is \<^verbatim>\<open>undefined\<close>,
  and then \<^verbatim>\<open>io()\<close> gives a socket on which nothing has been sent; any other argument,
  \<^verbatim>\<open>null\<close> too, becomes the socket.
\<close>

definition Multiplayer ::
  "(string \<times> payload) list option option \<Rightarrow> 's \<Rightarrow> 'a list \<Rightarrow> ('s, 'a) world" where
  "Multiplayer socketImpl s acts =
     \<lparr>state = s, actions = acts, gameid = ''default'', player = None,
      socket = (case socketImpl of None \<Rightarrow> Some [] | Some impl \<Rightarrow> impl)\<rparr>"



text \<open>
  Lines 29-32: an object literal, so it inherits from \<^verbatim>\<open>Object.prototype\<close>, and the
  read \<^verbatim>\<open>whiteListedActions[action.type]\<close> of line 40 finds the inherited members too.
\<close>

definition whiteListedActions :: "unit jsval table" where
  "whiteListedActions =
     \<lparr>own = [(''MAKE_MOVE'', JBool True), (''END_TURN'', JBool True)],
      inherited = Object_prototype (\<lambda>k. ())\<rparr>"

text \<open>
  Lines 36-48. \<^verbatim>\<open>next\<close> is the rest of the dispatch chain: it takes the action, may
  change the world, and returns the dispatch result or throws. The reducer behind it
  computes a new state and does not write to the old state object, so the state read by
  \<^verbatim>\<open>getState()\<close> before the call still has its \<^verbatim>\<open>_id\<close> after it. After the call,
  \<^verbatim>\<open>action.type\<close> is read from the action object as it then is; lines 41-43 write the
  three properties onto that object, in place; line 44 calls \<^verbatim>\<open>this.socket.emit\<close>, which
  throws when the socket is \<^verbatim>\<open>null\<close>, after the writes.
\<close>

definition SocketUpdate ::
  "(addr \<Rightarrow> (('i, 'y) State_scheme, ('i, 'x) redux_action_scheme, 'z) world_scheme \<Rightarrow>
      (error + 'r) \<times> (('i, 'y) State_scheme, ('i, 'x) redux_action_scheme, 'z) world_scheme) \<Rightarrow>
   addr \<Rightarrow>
   (('i, 'y) State_scheme, ('i, 'x) redux_action_scheme, 'z) world_scheme \<Rightarrow>
   (error + 'r) \<times> (('i, 'y) State_scheme, ('i, 'x) redux_action_scheme, 'z) world_scheme" where
  "SocketUpdate next act w =
     (let st = state w
      in case next act w of
           (Inl e, w') \<Rightarrow> (Inl e, w')
         | (Inr result, w') \<Rightarrow>
             (case deref (actions w') act of
                None \<Rightarrow> (Inl TypeError, w')
              | Some a \<Rightarrow>
                  if truthy (table_val whiteListedActions (redux_action.type a))
                  then
                    (let a = a\<lparr>action_id := Some (state_id st)\<rparr>;
                         a = a\<lparr>action_gameid := Some (gameid w')\<rparr>;
                         a = a\<lparr>action_player := Some (player w')\<rparr>;
                         w' = w'\<lparr>actions := (actions w')[act := a]\<rparr>
                     in case socket w' of
                          None \<Rightarrow> (Inl TypeError, w')
                        | Some sent \<Rightarrow>
                            (Inr result, w'\<lparr>socket := Some (sent @ [(''action'', Action_ref act)])\<rparr>))
                  else (Inr result, w')))"

section \<open>Concrete inputs\<close>

text \<open>
  A small game for the evaluations below. Its \<^verbatim>\<open>G\<close> is an array of the cells taken,
  each with the player who took it (\<open>Cells\<close>). The other values are what a built-in
  function can make of a \<^verbatim>\<open>G\<close>: a string, a boolean, and the wrapper objects of the two.
\<close>

datatype gstate =
    Cells "(string \<times> int) list"
  | Text string
  | Truth bool
  | Boxed_text string
  | Boxed_truth bool

fun is_object :: "gstate \<Rightarrow> bool" where
  "is_object (Text s) = False"
| "is_object (Truth b) = False"
| "is_object G = True"

type_synonym cell_move = "(gstate, int, string Ctx) movefn"

text \<open>
  \<^verbatim>\<open>(G, ctx, ...cells) => Array.isArray(G) ? G.concat(cells.map(c => [ctx.playerID, c])) : G\<close>
\<close>

definition clickCell :: cell_move where
  "clickCell G ctx as h =
     (case deref h ctx of
        None \<Rightarrow> (Inl TypeError, h)
      | Some c \<Rightarrow>
          (Inr (case G of
                  Cells cs \<Rightarrow> Cells (cs @ map (\<lambda>a. (Ctx.playerID c, a)) as)
                | _ \<Rightarrow> G), h))"

text \<open>
  The members of \<^verbatim>\<open>Object.prototype\<close>, called as \<^verbatim>\<open>processMove\<close> calls a move: as a
  plain function, so with \<^verbatim>\<open>this\<close> undefined, on \<^verbatim>\<open>G\<close>, \<^verbatim>\<open>ctx\<close> and the arguments.
  \<^verbatim>\<open>constructor\<close> is \<^verbatim>\<open>Object\<close>, which returns an object as it is and a primitive in
  its wrapper; \<^verbatim>\<open>toString\<close> returns \<^verbatim>\<open>"[object Undefined]"\<close>; \<^verbatim>\<open>isPrototypeOf\<close>
  returns \<^verbatim>\<open>false\<close> for a primitive before it looks at \<^verbatim>\<open>this\<close>; every other call
  converts \<^verbatim>\<open>this\<close> to an object and throws a TypeError.
\<close>

definition builtin :: "string \<Rightarrow> cell_move" where
  "builtin k G ctx as h =
     (if k = ''constructor''
      then (Inr (case G of Text s \<Rightarrow> Boxed_text s | Truth b \<Rightarrow> Boxed_truth b | _ \<Rightarrow> G), h)
      else if k = ''toString'' then (Inr (Text ''[object Undefined]''), h)
      else if k = ''isPrototypeOf'' \<and> \<not> is_object G then (Inr (Truth False), h)
      else (Inl TypeError, h))"

text \<open>\<^verbatim>\<open>FnWrap\<close> for a game whose plugins wrap nothing.\<close>

definition no_plugins :: "cell_move \<Rightarrow> unit list option \<Rightarrow> cell_move" where
  "no_plugins fn ps = fn"

text \<open>
  A flow engine for these inputs: its move map has the key \<^verbatim>\<open>phase.move\<close> for every
  move a phase declares, and nothing else.
\<close>

definition phase_moveMap :: "(string \<times> 'f PhaseConfig) list \<Rightarrow> (string \<times> 'f jsval) list" where
  "phase_moveMap ps =
     concat (map (\<lambda>(ph, pc). case PhaseConfig.moves pc of
                                 None \<Rightarrow> []
                               | Some t \<Rightarrow> map (\<lambda>(k, v). (ph @ ''.'' @ k, v)) (own t)) ps)"

definition sample_flow ::
  "(cell_move, unit, unit, unit) game \<Rightarrow> error + (cell_move, unit) flow" where
  "sample_flow game =
     Inr \<lparr>processGameEvent = Some (),
          moveMap = Some \<lparr>own = (case phases game of None \<Rightarrow> [] | Some ps \<Rightarrow> phase_moveMap (own ps)),
                          inherited = Object_prototype builtin\<rparr>\<rparr>"

text \<open>Object literals: a move table and a phase table.\<close>

definition object_of :: "(string \<times> cell_move jsval) list \<Rightarrow> cell_move jsval table" where
  "object_of ps = \<lparr>own = ps, inherited = Object_prototype builtin\<rparr>"

definition phases_of :: "(string \<times> cell_move PhaseConfig) list \<Rightarrow> cell_move PhaseConfig table" where
  "phases_of ps =
     \<lparr>own = ps, inherited = map (\<lambda>(k, v). (k, PhaseConfig None)) (Object_prototype builtin)\<rparr>"

text \<open>
  \<^verbatim>\<open>{ moves: { y: clickCell }, phases: { A: { moves: { x: clickCell } } } }\<close>
\<close>

definition raw_config :: "(cell_move, unit, unit, unit) game" where
  "raw_config =
     \<lparr>name = None, setup_prop = None,
      moves = Some (object_of [(''y'', JFun clickCell [])]),
      playerView = None, plugins = None,
      phases = Some (phases_of [(''A'', PhaseConfig (Some (object_of [(''x'', JFun clickCell [])])))]),
      flow = None, processMove_prop = None, getMove_prop = None, moveNames_prop = None\<rparr>"

text \<open>
  \<^verbatim>\<open>{ moves: { m: { move: clickCell, redact: true } } }\<close>: a long-form move as
  \<^verbatim>\<open>LongFormMove\<close> declares it.
\<close>

definition long_form_config :: "(cell_move, unit, unit, unit) game" where
  "long_form_config =
     \<lparr>name = None, setup_prop = None,
      moves = Some (object_of [(''m'', JObj [(''move'', JFun clickCell []), (''redact'', JBool True)])]),
      playerView = None, plugins = None, phases = None,
      flow = None, processMove_prop = None, getMove_prop = None, moveNames_prop = None\<rparr>"

text \<open>
  The store after \<^verbatim>\<open>Game(config)\<close>, from a store that holds the configuration alone:
  object 0 is the configuration, the \<^verbatim>\<open>game\<close> of the closures, and object 1 is the
  processed definition.
\<close>

definition normalized :: "(cell_move, unit, unit, unit) game \<Rightarrow> (cell_move, unit, unit, unit) game list" where
  "normalized config = snd (Game sample_flow builtin [config] 0)"

text \<open>
  The dispatch of a Redux store whose reducer counts the state's \<^verbatim>\<open>_id\<close> up: it puts
  the new state in place and returns the action it was given, the same object.
\<close>

definition counting_reducer ::
  "addr \<Rightarrow> (nat State, nat redux_action) world \<Rightarrow>
   (error + addr) \<times> (nat State, nat redux_action) world" where
  "counting_reducer act w = (Inr act, w\<lparr>state := \<lparr>state_id = Suc (state_id (state w))\<rparr>\<rparr>)"

text \<open>Action objects as the action creators leave them, without the three properties.\<close>

definition plain_action :: "string \<Rightarrow> nat redux_action" where
  "plain_action t = \<lparr>type = t, action_id = None, action_gameid = None, action_player = None\<rparr>"

section \<open>Evaluation and auxiliary facts\<close>

lemmas example_defs =
  raw_config_def long_form_config_def normalized_def sample_flow_def phase_moveMap_def
  object_of_def phases_of_def Object_prototype_def Game_def fill_defaults_def lacks_flow_def
  attach_flow_def deref_def alloc_def empty_object_def moveNames_def set_add_def own_keys_def

lemmas lookup_defs =
  getMove_def global_move_def phase_move_def has_key_def table_get_def table_val_def

lemma Game_raw_config:
  "Game sample_flow builtin [raw_config] 0 = (Inr 1, normalized raw_config)"
  by (simp add: example_defs)

lemma Game_long_form_config:
  "Game sample_flow builtin [long_form_config] 0 = (Inr 1, normalized long_form_config)"
  by (simp add: example_defs)

section \<open>processMove on a move that does not resolve\<close>

text \<open>
  Where \<^verbatim>\<open>getMove\<close> returns, and what it returns is not a function, also after the
  unwrapping of line 151 (\<^verbatim>\<open>null\<close> for an unknown move, or any other value that is
  not callable), \<^verbatim>\<open>processMove\<close> returns \<^verbatim>\<open>G\<close> itself, raises nothing and leaves
  the store of \<^verbatim>\<open>ctx\<close> objects as it was.
\<close>

lemma processMove_unresolved_noop:
  assumes "deref h ctx = Some c"
      and "getMove game c (action.type act) = Inr m"
      and "\<not> instanceof_Function (unwrap_impl m)"
  shows "processMove FnWrap game G act ctx h = (Inr G, h)"
  using assms by (cases "unwrap_impl m") (simp_all add: processMove_def)

lemma processMove_unresolved_noop_example:
  "deref [\<lparr>phase = ''A'', playerID = ''0''\<rparr>] 0 = Some \<lparr>phase = ''A'', playerID = ''0''\<rparr>
   \<and> getMove (normalized raw_config ! 0) \<lparr>phase = ''A'', playerID = ''0''\<rparr> ''y'' = Inr JNull
   \<and> \<not> instanceof_Function (unwrap_impl (JNull :: cell_move jsval))
   \<and> processMove no_plugins (normalized raw_config ! 0) (Cells [(''0'', 1)])
        \<lparr>action.type = ''y'', args = ArgArray [4], playerID = ''1''\<rparr> 0
        [\<lparr>phase = ''A'', playerID = ''0''\<rparr>]
      = (Inr (Cells [(''0'', 1)]), [\<lparr>phase = ''A'', playerID = ''0''\<rparr>])"
proof -
  have d: "deref [\<lparr>phase = ''A'', playerID = ''0''\<rparr>] 0 = Some \<lparr>phase = ''A'', playerID = ''0''\<rparr>"
    by (simp add: deref_def)
  have g: "getMove (normalized raw_config ! 0) \<lparr>phase = ''A'', playerID = ''0''\<rparr>
             (action.type \<lparr>action.type = ''y'', args = ArgArray [4::int], playerID = ''1''\<rparr>) = Inr JNull"
    by (simp add: example_defs lookup_defs)
  have u: "\<not> instanceof_Function (unwrap_impl (JNull :: cell_move jsval))"
    by (simp add: unwrap_impl_def)
  from processMove_unresolved_noop [OF d g u, of no_plugins "Cells [(''0'', 1)]"] d g u
  show ?thesis by simp
qed

text \<open>
  C1. \<^verbatim>\<open>processMove\<close> is claimed to return \<^verbatim>\<open>G\<close> unchanged and to raise nothing for
  every \<^verbatim>\<open>G\<close>, \<^verbatim>\<open>ctx\<close> and action whose type does not resolve to a move function.
  On the normalized \<open>raw_config\<close>, a \<^verbatim>\<open>ctx\<close> in phase \<^verbatim>\<open>B\<close> and the action type
  \<^verbatim>\<open>nope\<close>, which names no move (it is not in \<^verbatim>\<open>game.moves\<close>, and \<^verbatim>\<open>B.nope\<close> is not
  in the move map), no move function is resolved: \<^verbatim>\<open>getMove\<close> throws at line 113, and
  \<^verbatim>\<open>processMove\<close>, which calls it outside any handler, throws with it instead of
  returning \<^verbatim>\<open>G\<close>.
\<close>

theorem processMove_unknown_move_throws:
  "game.moves (normalized raw_config ! 0) = Some (object_of [(''y'', JFun clickCell [])])
   \<and> \<not> has_key ''nope'' (object_of [(''y'', JFun clickCell [])])
   \<and> flow (normalized raw_config ! 0) =
       Some \<lparr>processGameEvent = Some (), moveMap = Some (object_of [(''A.x'', JFun clickCell [])])\<rparr>
   \<and> \<not> has_key ''B.nope'' (object_of [(''A.x'', JFun clickCell [])])
   \<and> getMove (normalized raw_config ! 0) \<lparr>phase = ''B'', playerID = ''0''\<rparr> ''nope'' = Inl TypeError
   \<and> processMove no_plugins (normalized raw_config ! 0) (Cells [(''0'', 1)])
        \<lparr>action.type = ''nope'', args = ArgArray [], playerID = ''1''\<rparr> 0
        [\<lparr>phase = ''B'', playerID = ''0''\<rparr>]
      = (Inl TypeError, [\<lparr>phase = ''B'', playerID = ''0''\<rparr>])"
  by (simp add: example_defs lookup_defs processMove_def)

section \<open>getMove: exceptions and resolution order\<close>

text \<open>
  C3. \<^verbatim>\<open>getMove\<close> is claimed to return a move entry or \<^verbatim>\<open>null\<close> and never to throw,
  also when \<^verbatim>\<open>ctx.phase\<close> is not a key of \<^verbatim>\<open>game.phases\<close>. On the normalized
  \<open>raw_config\<close>, whose only phase is \<^verbatim>\<open>A\<close>, and a \<^verbatim>\<open>ctx\<close> in phase \<^verbatim>\<open>B\<close>, the read
  \<^verbatim>\<open>game.phases[ctx.phase].moves\<close> of line 113 is a property access on
  \<^verbatim>\<open>undefined\<close>: \<^verbatim>\<open>getMove\<close> throws a TypeError, and so does \<^verbatim>\<open>processMove\<close>.
\<close>

theorem getMove_throws_outside_phases:
  "Game sample_flow builtin [raw_config] 0 = (Inr 1, normalized raw_config)
   \<and> phases (normalized raw_config ! 0) =
       Some (phases_of [(''A'', PhaseConfig (Some (object_of [(''x'', JFun clickCell [])])))])
   \<and> getMove (normalized raw_config ! 0) \<lparr>phase = ''B'', playerID = ''0''\<rparr> ''x'' = Inl TypeError
   \<and> processMove no_plugins (normalized raw_config ! 0) (Cells [])
        \<lparr>action.type = ''x'', args = ArgArray [4], playerID = ''1''\<rparr> 0
        [\<lparr>phase = ''B'', playerID = ''0''\<rparr>]
      = (Inl TypeError, [\<lparr>phase = ''B'', playerID = ''0''\<rparr>])"
  by (simp add: example_defs lookup_defs processMove_def)

text \<open>
  Where \<^verbatim>\<open>getMove\<close> does return: the moves and the flow's move map are there, and the
  phase is \<^verbatim>\<open>"default"\<close>, or there is no phase table, or the phase is one of its keys.
\<close>

lemma getMove_returns:
  assumes "game.moves game = Some ms" and "flow game = Some fl" and "moveMap fl = Some mm"
      and "phase ctx = ''default'' \<or> phases game = None \<or>
           (\<exists>ps pc. phases game = Some ps \<and> table_get ps (phase ctx) = Some pc)"
  shows "\<exists>v. getMove game ctx nm = Inr v"
  using assms
  by (auto simp: getMove_def global_move_def phase_move_def Let_def split: option.splits)

text \<open>
  C4, as claimed: when the phase declares moves and the lookup of
  \<^verbatim>\<open>"<phase>.<name>"\<close> in the move map fails, \<^verbatim>\<open>getMove\<close> falls back to the global
  table, so that every name of the global table resolves. It does not: in phase \<^verbatim>\<open>A\<close>
  of the normalized \<open>raw_config\<close>, which declares the move \<^verbatim>\<open>x\<close>, the global move
  \<^verbatim>\<open>y\<close> resolves to \<^verbatim>\<open>null\<close>.
\<close>

theorem getMove_no_fallback_counterexample:
  "game.moves (normalized raw_config ! 0) = Some (object_of [(''y'', JFun clickCell [])])
   \<and> has_key ''y'' (object_of [(''y'', JFun clickCell [])])
   \<and> flow (normalized raw_config ! 0) =
       Some \<lparr>processGameEvent = Some (), moveMap = Some (object_of [(''A.x'', JFun clickCell [])])\<rparr>
   \<and> \<not> has_key ''A.y'' (object_of [(''A.x'', JFun clickCell [])])
   \<and> getMove (normalized raw_config ! 0) \<lparr>phase = ''A'', playerID = ''0''\<rparr> ''y'' = Inr JNull"
  by (simp add: example_defs lookup_defs)

text \<open>
  C4, amended. When \<^verbatim>\<open>ctx.phase\<close> is not \<^verbatim>\<open>"default"\<close> and that phase declares
  moves, \<^verbatim>\<open>getMove\<close> looks \<^verbatim>\<open>"<phase>.<name>"\<close> up in the flow's move map and
  returns the entry, or \<^verbatim>\<open>null\<close> when the key is not there; the global table is not
  consulted. When the phase is \<^verbatim>\<open>"default"\<close>, or there is no phase table, or the phase
  declares no moves, \<^verbatim>\<open>getMove\<close> looks the name up in the global table, and for every
  name present there it returns that table's entry.
\<close>

theorem getMove_resolution:
  "(phase ctx \<noteq> ''default'' \<and> phases game = Some ps \<and> table_get ps (phase ctx) = Some pc \<and>
    PhaseConfig.moves pc = Some pm \<and> flow game = Some fl \<and> moveMap fl = Some mm \<longrightarrow>
      getMove game ctx nm =
        Inr (if has_key (phase ctx @ ''.'' @ nm) mm
             then table_val mm (phase ctx @ ''.'' @ nm) else JNull))
   \<and> ((phase ctx = ''default'' \<or> phases game = None \<or>
        (phases game = Some ps \<and> table_get ps (phase ctx) = Some pc \<and> PhaseConfig.moves pc = None)) \<and>
       game.moves game = Some ms \<and> has_key nm ms \<longrightarrow>
      getMove game ctx nm = Inr (table_val ms nm))"
proof (intro conjI impI)
  assume "phase ctx \<noteq> ''default'' \<and> phases game = Some ps \<and> table_get ps (phase ctx) = Some pc \<and>
    PhaseConfig.moves pc = Some pm \<and> flow game = Some fl \<and> moveMap fl = Some mm"
  then have "getMove game ctx nm = phase_move game (phase ctx) nm"
    and "flow game = Some fl" and "moveMap fl = Some mm"
    by (simp_all add: getMove_def)
  then show "getMove game ctx nm =
        Inr (if has_key (phase ctx @ ''.'' @ nm) mm
             then table_val mm (phase ctx @ ''.'' @ nm) else JNull)"
    by (simp add: phase_move_def)
next
  assume a: "(phase ctx = ''default'' \<or> phases game = None \<or>
        (phases game = Some ps \<and> table_get ps (phase ctx) = Some pc \<and> PhaseConfig.moves pc = None)) \<and>
       game.moves game = Some ms \<and> has_key nm ms"
  then have "getMove game ctx nm = global_move game nm"
    by (auto simp: getMove_def)
  with a show "getMove game ctx nm = Inr (table_val ms nm)"
    by (simp add: global_move_def)
qed

theorem getMove_resolution_witness:
  "phase \<lparr>phase = ''A'', playerID = ''0''\<rparr> \<noteq> ''default''
   \<and> phases (normalized raw_config ! 0) =
       Some (phases_of [(''A'', PhaseConfig (Some (object_of [(''x'', JFun clickCell [])])))])
   \<and> table_get (phases_of [(''A'', PhaseConfig (Some (object_of [(''x'', JFun clickCell [])])))]) ''A''
       = Some (PhaseConfig (Some (object_of [(''x'', JFun clickCell [])])))
   \<and> flow (normalized raw_config ! 0) =
       Some \<lparr>processGameEvent = Some (), moveMap = Some (object_of [(''A.x'', JFun clickCell [])])\<rparr>
   \<and> getMove (normalized raw_config ! 0) \<lparr>phase = ''A'', playerID = ''0''\<rparr> ''x'' = Inr (JFun clickCell [])
   \<and> getMove (normalized raw_config ! 0) \<lparr>phase = ''A'', playerID = ''0''\<rparr> ''z'' = Inr JNull
   \<and> phase \<lparr>phase = ''default'', playerID = ''0''\<rparr> = ''default''
   \<and> game.moves (normalized raw_config ! 0) = Some (object_of [(''y'', JFun clickCell [])])
   \<and> has_key ''y'' (object_of [(''y'', JFun clickCell [])])
   \<and> getMove (normalized raw_config ! 0) \<lparr>phase = ''default'', playerID = ''0''\<rparr> ''y'' = Inr (JFun clickCell [])"
proof -
  let ?g = "normalized raw_config ! 0"
  let ?pm = "object_of [(''x'', JFun clickCell [])]"
  let ?ps = "phases_of [(''A'', PhaseConfig (Some ?pm))]"
  let ?mm = "object_of [(''A.x'', JFun clickCell [])]"
  let ?fl = "\<lparr>processGameEvent = Some (), moveMap = Some ?mm\<rparr>"
  let ?ms = "object_of [(''y'', JFun clickCell [])]"
  let ?A = "\<lparr>phase = ''A'', playerID = ''0''\<rparr>"
  let ?D = "\<lparr>phase = ''default'', playerID = ''0''\<rparr>"
  have ps: "phases ?g = Some ?ps" and fl: "flow ?g = Some ?fl" and ms: "game.moves ?g = Some ?ms"
    by (simp_all add: example_defs)
  have pc: "table_get ?ps ''A'' = Some (PhaseConfig (Some ?pm))"
    by (simp add: table_get_def phases_of_def)
  have hk: "has_key ''y'' ?ms" "has_key ''A.x'' ?mm" "\<not> has_key ''A.z'' ?mm"
    by (simp_all add: has_key_def object_of_def Object_prototype_def)
  have tv: "table_val ?mm ''A.x'' = JFun clickCell []" "table_val ?ms ''y'' = JFun clickCell []"
    by (simp_all add: table_val_def table_get_def object_of_def)
  from getMove_resolution [of ?A ?g ?ps "PhaseConfig (Some ?pm)" ?pm ?fl ?mm "''x''"] ps pc fl hk tv
  have x: "getMove ?g ?A ''x'' = Inr (JFun clickCell [])" by simp
  from getMove_resolution [of ?A ?g ?ps "PhaseConfig (Some ?pm)" ?pm ?fl ?mm "''z''"] ps pc fl hk
  have z: "getMove ?g ?A ''z'' = Inr JNull" by simp
  from getMove_resolution [of ?D ?g _ _ _ _ _ "''y''" ?ms] ms hk tv
  have y: "getMove ?g ?D ''y'' = Inr (JFun clickCell [])" by simp
  from ps pc fl ms hk x y z show ?thesis by simp
qed

section \<open>processMove on a move that resolves\<close>

text \<open>
  C5. \<^verbatim>\<open>processMove\<close> is claimed to unwrap a long-form move
  \<^verbatim>\<open>{move: f, redact?, client?, undoable?}\<close> to \<^verbatim>\<open>f\<close> and to invoke it. Lines 151-153
  unwrap the property \<^verbatim>\<open>impl\<close>, not \<^verbatim>\<open>move\<close>: for the move
  \<^verbatim>\<open>m = {move: clickCell, redact: true}\<close> of \<open>long_form_config\<close>, \<^verbatim>\<open>getMove\<close>
  resolves the record, \<^verbatim>\<open>processMove\<close> returns \<^verbatim>\<open>G\<close> unchanged without a call, and
  the call of \<open>clickCell\<close> that the claim describes would have returned another \<^verbatim>\<open>G\<close>.
\<close>

theorem processMove_long_form_not_invoked:
  "Game sample_flow builtin [long_form_config] 0 = (Inr 1, normalized long_form_config)
   \<and> getMove (normalized long_form_config ! 0) \<lparr>phase = ''default'', playerID = ''0''\<rparr> ''m''
       = Inr (JObj [(''move'', JFun clickCell []), (''redact'', JBool True)])
   \<and> processMove no_plugins (normalized long_form_config ! 0) (Cells [])
        \<lparr>action.type = ''m'', args = ArgArray [4], playerID = ''1''\<rparr> 0
        [\<lparr>phase = ''default'', playerID = ''0''\<rparr>]
      = (Inr (Cells []), [\<lparr>phase = ''default'', playerID = ''0''\<rparr>])
   \<and> no_plugins clickCell (Some []) (Cells []) 1 [4]
        [\<lparr>phase = ''default'', playerID = ''0''\<rparr>, \<lparr>phase = ''default'', playerID = ''1''\<rparr>]
      = (Inr (Cells [(''1'', 4)]),
         [\<lparr>phase = ''default'', playerID = ''0''\<rparr>, \<lparr>phase = ''default'', playerID = ''1''\<rparr>])"
  by (simp add: example_defs lookup_defs processMove_def unwrap_impl_def no_plugins_def clickCell_def)

text \<open>
  Where the record has a truthy \<^verbatim>\<open>impl\<close>, that property is what is called.
\<close>

lemma unwrap_impl_record:
  "map_of ps ''impl'' = Some (JFun f qs) \<Longrightarrow> unwrap_impl (JObj ps) = JFun f qs"
  by (simp add: unwrap_impl_def)

text \<open>
  C6. When \<^verbatim>\<open>processMove\<close> resolves a function \<open>f\<close> (the entry itself or its
  \<^verbatim>\<open>impl\<close>) and \<^verbatim>\<open>action.args\<close> is an array \<open>xs\<close>, its result is the result of the
  call of \<^verbatim>\<open>FnWrap(f, game.plugins)\<close> on \<^verbatim>\<open>G\<close>, a new \<^verbatim>\<open>ctx\<close> object and \<open>xs\<close>.
  The new object is \<^verbatim>\<open>ctx\<close> with \<^verbatim>\<open>playerID\<close> set to \<^verbatim>\<open>action.playerID\<close>, every
  other field as in \<^verbatim>\<open>ctx\<close>; it has an address of its own, and in the store the call
  starts from, the caller's \<^verbatim>\<open>ctx\<close> object is what it was.
\<close>

theorem processMove_invocation:
  assumes "deref h ctx = Some c"
      and "getMove game c (action.type act) = Inr m"
      and "unwrap_impl m = JFun f ps"
      and "args act = ArgArray xs"
  shows "processMove FnWrap game G act ctx h =
           FnWrap f (plugins game) G (length h) xs (h @ [c\<lparr>Ctx.playerID := action.playerID act\<rparr>])
         \<and> phase (c\<lparr>Ctx.playerID := action.playerID act\<rparr>) = phase c
         \<and> Ctx.more (c\<lparr>Ctx.playerID := action.playerID act\<rparr>) = Ctx.more c
         \<and> Ctx.playerID (c\<lparr>Ctx.playerID := action.playerID act\<rparr>) = action.playerID act
         \<and> deref (h @ [c\<lparr>Ctx.playerID := action.playerID act\<rparr>]) ctx = Some c
         \<and> length h \<noteq> ctx"
  using assms by (auto simp: processMove_def alloc_def deref_def nth_append split: if_splits)

theorem processMove_invocation_witness:
  "deref [\<lparr>phase = ''default'', playerID = ''0''\<rparr>] 0 = Some \<lparr>phase = ''default'', playerID = ''0''\<rparr>
   \<and> getMove (normalized raw_config ! 0) \<lparr>phase = ''default'', playerID = ''0''\<rparr> ''y'' = Inr (JFun clickCell [])
   \<and> unwrap_impl (JFun clickCell []) = JFun clickCell []
   \<and> processMove no_plugins (normalized raw_config ! 0) (Cells [(''0'', 1)])
        \<lparr>action.type = ''y'', args = ArgArray [4, 5], playerID = ''1''\<rparr> 0
        [\<lparr>phase = ''default'', playerID = ''0''\<rparr>]
      = (Inr (Cells [(''0'', 1), (''1'', 4), (''1'', 5)]),
         [\<lparr>phase = ''default'', playerID = ''0''\<rparr>, \<lparr>phase = ''default'', playerID = ''1''\<rparr>])"
proof -
  let ?c = "\<lparr>phase = ''default'', playerID = ''0''\<rparr>"
  let ?act = "\<lparr>action.type = ''y'', args = ArgArray [4, 5::int], playerID = ''1''\<rparr>"
  have d: "deref [?c] 0 = Some ?c"
    by (simp add: deref_def)
  have g: "getMove (normalized raw_config ! 0) ?c (action.type ?act) = Inr (JFun clickCell [])"
    by (simp add: example_defs lookup_defs)
  have u: "unwrap_impl (JFun clickCell []) = JFun clickCell []"
    by (simp add: unwrap_impl_def)
  have a: "args ?act = ArgArray [4, 5]"
    by simp
  from processMove_invocation [OF d g u a, of no_plugins "Cells [(''0'', 1)]"] d g u
  show ?thesis by (simp add: no_plugins_def clickCell_def deref_def)
qed

text \<open>
  An \<^verbatim>\<open>action.args\<close> that is not an array (\<^verbatim>\<open>undefined\<close>, as the tests' \<^verbatim>\<open>makeMove('pass')\<close>
  leaves it) reaches the move as one argument.
\<close>

lemma processMove_invocation_other_args:
  assumes "deref h ctx = Some c"
      and "getMove game c (action.type act) = Inr m"
      and "unwrap_impl m = JFun f ps"
      and "args act = ArgOther v"
  shows "processMove FnWrap game G act ctx h =
           FnWrap f (plugins game) G (length h) [v] (h @ [c\<lparr>Ctx.playerID := action.playerID act\<rparr>])"
  using assms by (simp add: processMove_def alloc_def)

section \<open>The Game normalizer: identity, move names, writes to the input\<close>

lemma Game_passthrough:
  "deref h game = Some g \<Longrightarrow> processMove_prop g \<noteq> None \<Longrightarrow> Game F native h game = (Inr game, h)"
  by (auto simp: Game_def)

lemma fill_defaults_fields:
  "name (fill_defaults native g) = (if name g = None then Some ''default'' else name g)"
  "setup_prop (fill_defaults native g) = (if setup_prop g = None then Some Default_fn else setup_prop g)"
  "game.moves (fill_defaults native g) =
     (if game.moves g = None then Some (empty_object native) else game.moves g)"
  "playerView (fill_defaults native g) = (if playerView g = None then Some Default_fn else playerView g)"
  "plugins (fill_defaults native g) = (if plugins g = None then Some [] else plugins g)"
  "phases (fill_defaults native g) = phases g"
  "flow (fill_defaults native g) = flow g"
  "processMove_prop (fill_defaults native g) = processMove_prop g"
  "getMove_prop (fill_defaults native g) = getMove_prop g"
  "moveNames_prop (fill_defaults native g) = moveNames_prop g"
  by (simp_all add: fill_defaults_def Let_def)

lemma lacks_flow_fill: "lacks_flow (fill_defaults native g) = lacks_flow g"
  by (simp add: lacks_flow_def fill_defaults_fields)

text \<open>The call on an object that has no \<^verbatim>\<open>processMove\<close>, path by path.\<close>

lemma Game_unprocessed:
  assumes "deref h game = Some g0" and "processMove_prop g0 = None"
  shows "Game F native h game =
          (case attach_flow F (fill_defaults native g0) of
             Inl e \<Rightarrow> (Inl e, h[game := fill_defaults native g0])
           | Inr g2 \<Rightarrow>
               (case game.moves g2 of
                  None \<Rightarrow> (Inl TypeError, h[game := g2])
                | Some ms \<Rightarrow>
                    (case flow g2 of
                       None \<Rightarrow> (Inl TypeError, h[game := g2])
                     | Some fl \<Rightarrow>
                         (case moveMap fl of
                            None \<Rightarrow> (Inl TypeError, h[game := g2])
                          | Some mm \<Rightarrow>
                              (Inr (length h),
                               h[game := g2] @
                               [g2\<lparr>getMove_prop := Some (Closure game),
                                   moveNames_prop := Some (moveNames ms mm),
                                   processMove_prop := Some (Closure game)\<rparr>])))))"
  using assms
  by (simp add: Game_def Let_def alloc_def split: sum.splits option.splits)

lemma Game_result_processed:
  assumes "Game F native h game = (Inr r, h')"
  shows "\<exists>d. deref h' r = Some d \<and> processMove_prop d \<noteq> None"
proof (cases "deref h game")
  case None
  with assms show ?thesis by (simp add: Game_def)
next
  case (Some g0)
  show ?thesis
  proof (cases "processMove_prop g0 = None")
    case False
    with Some assms show ?thesis by (auto simp: Game_def)
  next
    case True
    from assms show ?thesis
      unfolding Game_unprocessed [OF Some True]
      by (auto simp: deref_def nth_append split: sum.splits option.splits)
  qed
qed

text \<open>
  C2. If the object has \<^verbatim>\<open>processMove\<close>, \<^verbatim>\<open>Game\<close> returns the very address it was
  given and writes nothing. Whenever \<^verbatim>\<open>Game\<close> returns an object, that object has
  \<^verbatim>\<open>processMove\<close>, so \<^verbatim>\<open>Game\<close> of the result is the result, with the store
  untouched: no second flow object, no second wrapping.
\<close>

theorem Game_idempotent:
  "(deref h game = Some g \<and> processMove_prop g \<noteq> None \<longrightarrow> Game F native h game = (Inr game, h))
   \<and> (Game F native h game = (Inr r, h') \<longrightarrow> Game F native h' r = (Inr r, h'))"
  using Game_passthrough [of h game g F native] Game_result_processed [of F native h game r h']
        Game_passthrough [of h' r _ F native]
  by blast

theorem Game_idempotent_witness:
  "deref (normalized raw_config) 1 = Some (normalized raw_config ! 1)
   \<and> processMove_prop (normalized raw_config ! 1) = Some (Closure 0)
   \<and> Game sample_flow builtin [raw_config] 0 = (Inr 1, normalized raw_config)
   \<and> Game sample_flow builtin (normalized raw_config) 1 = (Inr 1, normalized raw_config)"
proof -
  have d: "deref (normalized raw_config) 1 = Some (normalized raw_config ! 1)"
    by (simp add: example_defs)
  have p: "processMove_prop (normalized raw_config ! 1) = Some (Closure 0)"
    by (simp add: example_defs)
  from Game_idempotent [of "normalized raw_config" 1 "normalized raw_config ! 1" sample_flow builtin] d p
  have through: "Game sample_flow builtin (normalized raw_config) 1 = (Inr 1, normalized raw_config)"
    by simp
  from Game_idempotent [of "[raw_config]" 0 raw_config sample_flow builtin 1 "normalized raw_config"]
    Game_raw_config
  have again: "Game sample_flow builtin (normalized raw_config) 1 = (Inr 1, normalized raw_config)"
    by simp
  from d p Game_raw_config through again show ?thesis by simp
qed

lemma last_segment_nonempty_split: "split_on d cur s \<noteq> []"
  by (induction s arbitrary: cur) auto

lemma takeWhile_upto_first:
  "d \<notin> set xs \<Longrightarrow> takeWhile (\<lambda>c. c \<noteq> d) (xs @ d # ys) = xs"
  by (induction xs) auto

lemma takeWhile_within:
  "d \<in> set xs \<Longrightarrow> takeWhile (\<lambda>c. c \<noteq> d) (xs @ ys) = takeWhile (\<lambda>c. c \<noteq> d) xs"
  by (induction xs) auto

lemma last_split_on:
  "last (split_on d cur s) =
     (if d \<in> set s then rev (takeWhile (\<lambda>c. c \<noteq> d) (rev s)) else cur @ s)"
proof (induction s arbitrary: cur)
  case Nil
  then show ?case by simp
next
  case (Cons c cs)
  show ?case
  proof (cases "c = d")
    case True
    then show ?thesis
      using Cons.IH [of "[]"] last_segment_nonempty_split [of d "[]" cs]
            takeWhile_upto_first [of d "rev cs" "[]"] takeWhile_within [of d "rev cs" "[d]"]
      by auto
  next
    case False
    then show ?thesis
      using Cons.IH [of "cur @ [c]"] takeWhile_within [of d "rev cs" "[c]"]
      by auto
  qed
qed

lemma rev_takeWhile_all: "d \<notin> set s \<Longrightarrow> rev (takeWhile (\<lambda>c. c \<noteq> d) (rev s)) = s"
  by (induction s) (auto simp: takeWhile_upto_first)

text \<open>The last segment is what follows the last dot, or the whole key when it has no dot.\<close>

lemma last_segment_eq:
  "last_segment nm = rev (takeWhile (\<lambda>c. c \<noteq> CHR ''.'') (rev nm))"
  by (simp add: last_segment_def split_dot_def last_split_on rev_takeWhile_all)

lemma set_add_set: "set (set_add s x) = insert x (set s)"
  by (auto simp: set_add_def)

lemma set_add_distinct: "distinct s \<Longrightarrow> distinct (set_add s x)"
  by (simp add: set_add_def)

lemma fold_set_add_set:
  "set (fold (\<lambda>nm s. set_add s (f nm)) ks s0) = set s0 \<union> f ` set ks"
  by (induction ks arbitrary: s0) (auto simp: set_add_set)

lemma fold_set_add_distinct:
  "distinct s0 \<Longrightarrow> distinct (fold (\<lambda>nm s. set_add s (f nm)) ks s0)"
  by (induction ks arbitrary: s0) (auto simp: set_add_distinct)

lemma moveNames_set:
  "set (moveNames ms mm) = set (own_keys ms) \<union> last_segment ` set (own_keys mm)"
  using fold_set_add_set [of "\<lambda>nm. nm" "own_keys ms" "[]"]
        fold_set_add_set [of last_segment "own_keys mm"]
  by (simp add: moveNames_def)

lemma moveNames_distinct: "distinct (moveNames ms mm)"
  using fold_set_add_distinct [of "[]" "\<lambda>nm. nm" "own_keys ms"]
        fold_set_add_distinct [of _ last_segment "own_keys mm"]
  by (simp add: moveNames_def)

text \<open>
  C7. When \<^verbatim>\<open>Game\<close> processes a configuration and returns the definition \<open>d\<close>, the
  \<^verbatim>\<open>moveNames\<close> of \<open>d\<close> has exactly the own keys of \<^verbatim>\<open>game.moves\<close> and the last
  segments of the own keys of \<^verbatim>\<open>game.flow.moveMap\<close> (both read from the caller's
  object as the call leaves it), and no name twice.
\<close>

theorem moveNames_union:
  assumes "deref h game = Some g0" and "processMove_prop g0 = None"
      and "Game F native h game = (Inr r, h')"
  shows "\<exists>d g ms fl mm. deref h' r = Some d \<and> deref h' game = Some g \<and>
           game.moves g = Some ms \<and> flow g = Some fl \<and> moveMap fl = Some mm \<and>
           moveNames_prop d = Some (moveNames ms mm) \<and>
           set (moveNames ms mm) = set (own_keys ms) \<union> last_segment ` set (own_keys mm) \<and>
           distinct (moveNames ms mm)"
  using assms(3,1) unfolding Game_unprocessed [OF assms(1,2)]
  by (auto simp: deref_def nth_append moveNames_set moveNames_distinct
           split: sum.splits option.splits if_splits)

theorem moveNames_union_witness:
  "deref [raw_config] 0 = Some raw_config \<and> processMove_prop raw_config = None
   \<and> Game sample_flow builtin [raw_config] 0 = (Inr 1, normalized raw_config)
   \<and> moveNames_prop (normalized raw_config ! 1) = Some [''y'', ''x'']
   \<and> (\<exists>d g ms fl mm. deref (normalized raw_config) 1 = Some d \<and> deref (normalized raw_config) 0 = Some g \<and>
           game.moves g = Some ms \<and> flow g = Some fl \<and> moveMap fl = Some mm \<and>
           moveNames_prop d = Some (moveNames ms mm) \<and>
           set (moveNames ms mm) = set (own_keys ms) \<union> last_segment ` set (own_keys mm) \<and>
           distinct (moveNames ms mm))"
proof -
  have d: "deref [raw_config] 0 = Some raw_config"
    by (simp add: deref_def)
  have p: "processMove_prop raw_config = None"
    by (simp add: raw_config_def)
  have n: "moveNames_prop (normalized raw_config ! 1) = Some [''y'', ''x'']"
    by (simp add: example_defs last_segment_def split_dot_def)
  from moveNames_union [OF d p Game_raw_config] d p n Game_raw_config
  show ?thesis by simp
qed

lemma Game_input_after:
  assumes "deref h game = Some g0" and "processMove_prop g0 = None"
  shows "deref (snd (Game F native h game)) game =
           Some (case attach_flow F (fill_defaults native g0) of
                   Inr g2 \<Rightarrow> g2
                 | Inl e \<Rightarrow> fill_defaults native g0)"
  using assms(1) unfolding Game_unprocessed [OF assms]
  by (auto simp: deref_def nth_append split: sum.splits option.splits if_splits)

lemma fill_defaults_changes:
  assumes "name g = None \<or> setup_prop g = None \<or> game.moves g = None \<or> playerView g = None \<or>
           plugins g = None"
  shows "fill_defaults native g \<noteq> g" and "(fill_defaults native g)\<lparr>flow := x\<rparr> \<noteq> g"
proof -
  show "fill_defaults native g \<noteq> g"
  proof
    assume "fill_defaults native g = g"
    then have "name (fill_defaults native g) = name g"
      "setup_prop (fill_defaults native g) = setup_prop g"
      "game.moves (fill_defaults native g) = game.moves g"
      "playerView (fill_defaults native g) = playerView g"
      "plugins (fill_defaults native g) = plugins g"
      by simp_all
    with assms show False by (auto simp: fill_defaults_fields split: if_splits)
  qed
  show "(fill_defaults native g)\<lparr>flow := x\<rparr> \<noteq> g"
  proof
    assume e: "(fill_defaults native g)\<lparr>flow := x\<rparr> = g"
    have "name ((fill_defaults native g)\<lparr>flow := x\<rparr>) = name g"
      "setup_prop ((fill_defaults native g)\<lparr>flow := x\<rparr>) = setup_prop g"
      "game.moves ((fill_defaults native g)\<lparr>flow := x\<rparr>) = game.moves g"
      "playerView ((fill_defaults native g)\<lparr>flow := x\<rparr>) = playerView g"
      "plugins ((fill_defaults native g)\<lparr>flow := x\<rparr>) = plugins g"
      unfolding e by simp_all
    with assms show False by (auto simp: fill_defaults_fields split: if_splits)
  qed
qed

text \<open>
  C9. \<^verbatim>\<open>Game\<close> writes to the object it is given. For an object without
  \<^verbatim>\<open>processMove\<close>, after the call (whether it returned or threw) the caller's object
  has the default for each of \<^verbatim>\<open>name\<close>, \<^verbatim>\<open>setup\<close>, \<^verbatim>\<open>moves\<close>, \<^verbatim>\<open>playerView\<close> and
  \<^verbatim>\<open>plugins\<close> it was lacking; if it had no flow object with \<^verbatim>\<open>processGameEvent\<close>, its
  \<^verbatim>\<open>flow\<close> is the flow object \<^verbatim>\<open>FlowWithPhases\<close> built; and if any of the five
  properties was lacking, the object is no longer what it was.
\<close>

theorem Game_mutates_config:
  assumes "deref h game = Some g0" and "processMove_prop g0 = None"
  shows "\<exists>g'. deref (snd (Game F native h game)) game = Some g'
     \<and> (name g0 = None \<longrightarrow> name g' = Some ''default'')
     \<and> (setup_prop g0 = None \<longrightarrow> setup_prop g' = Some Default_fn)
     \<and> (game.moves g0 = None \<longrightarrow> game.moves g' = Some (empty_object native))
     \<and> (playerView g0 = None \<longrightarrow> playerView g' = Some Default_fn)
     \<and> (plugins g0 = None \<longrightarrow> plugins g' = Some [])
     \<and> (lacks_flow g0 \<longrightarrow> (\<forall>fl. F (fill_defaults native g0) = Inr fl \<longrightarrow> flow g' = Some fl))
     \<and> (name g0 = None \<or> setup_prop g0 = None \<or> game.moves g0 = None \<or> playerView g0 = None \<or>
        plugins g0 = None \<longrightarrow> g' \<noteq> g0)"
  using Game_input_after [OF assms, of F native]
        fill_defaults_changes [where g = g0 and native = native]
  by (auto simp: fill_defaults_fields attach_flow_def lacks_flow_fill split: sum.splits)

theorem Game_mutates_config_witness:
  "deref [long_form_config] 0 = Some long_form_config \<and> processMove_prop long_form_config = None
   \<and> name long_form_config = None \<and> setup_prop long_form_config = None
   \<and> playerView long_form_config = None \<and> plugins long_form_config = None
   \<and> lacks_flow long_form_config
   \<and> sample_flow (fill_defaults builtin long_form_config) =
        Inr \<lparr>processGameEvent = Some (), moveMap = Some (object_of [])\<rparr>
   \<and> deref (snd (Game sample_flow builtin [long_form_config] 0)) 0
       = Some (long_form_config
                 \<lparr>name := Some ''default'', setup_prop := Some Default_fn,
                  playerView := Some Default_fn, plugins := Some [],
                  flow := Some \<lparr>processGameEvent = Some (), moveMap = Some (object_of [])\<rparr>\<rparr>)
   \<and> (\<exists>g'. deref (snd (Game sample_flow builtin [long_form_config] 0)) 0 = Some g'
         \<and> name g' = Some ''default'' \<and> setup_prop g' = Some Default_fn
         \<and> playerView g' = Some Default_fn \<and> plugins g' = Some []
         \<and> flow g' = Some \<lparr>processGameEvent = Some (), moveMap = Some (object_of [])\<rparr>
         \<and> g' \<noteq> long_form_config)"
proof -
  have d: "deref [long_form_config] 0 = Some long_form_config"
    by (simp add: deref_def)
  have p: "processMove_prop long_form_config = None"
    and f: "name long_form_config = None" "setup_prop long_form_config = None"
      "playerView long_form_config = None" "plugins long_form_config = None"
      "lacks_flow long_form_config"
    by (simp_all add: long_form_config_def lacks_flow_def)
  have s: "sample_flow (fill_defaults builtin long_form_config) =
             Inr \<lparr>processGameEvent = Some (), moveMap = Some (object_of [])\<rparr>"
    by (simp add: sample_flow_def fill_defaults_fields long_form_config_def object_of_def)
  have a: "deref (snd (Game sample_flow builtin [long_form_config] 0)) 0
       = Some (long_form_config
                 \<lparr>name := Some ''default'', setup_prop := Some Default_fn,
                  playerView := Some Default_fn, plugins := Some [],
                  flow := Some \<lparr>processGameEvent = Some (), moveMap = Some (object_of [])\<rparr>\<rparr>)"
    by (simp add: example_defs)
  from Game_mutates_config [OF d p, of sample_flow builtin] d p f s a
  show ?thesis by auto
qed

section \<open>The middleware: what is emitted, and when\<close>


lemma whitelisted_iff:
  "truthy (table_val whiteListedActions t) \<longleftrightarrow>
     t = ''MAKE_MOVE'' \<or> t = ''END_TURN'' \<or> t \<in> set (map fst (Object_prototype (\<lambda>k. ())))"
  by (simp add: whiteListedActions_def table_val_def table_get_def Object_prototype_def)

text \<open>
  On an instance with a socket, for an action type that is not the name of a member of
  \<^verbatim>\<open>Object.prototype\<close>, the middleware emits exactly when the type is \<^verbatim>\<open>MAKE_MOVE\<close>
  or \<^verbatim>\<open>END_TURN\<close>; the emitted action carries the instance's \<^verbatim>\<open>gameid\<close> and
  \<^verbatim>\<open>player\<close> as they are when it is sent; the action reaches \<^verbatim>\<open>next\<close> in both cases.
\<close>

lemma SocketUpdate_whitelist:
  assumes "next act w = (Inr result, w')"
      and "deref (actions w') act = Some a"
      and "socket w' = Some sent"
      and "redux_action.type a \<notin> set (map fst (Object_prototype (\<lambda>k. ())))"
  shows "SocketUpdate next act w =
           (if redux_action.type a = ''MAKE_MOVE'' \<or> redux_action.type a = ''END_TURN''
            then (Inr result,
                  w'\<lparr>actions := (actions w')[act := a\<lparr>action_id := Some (state_id (state w)),
                                                      action_gameid := Some (gameid w'),
                                                      action_player := Some (player w')\<rparr>],
                     socket := Some (sent @ [(''action'', Action_ref act)])\<rparr>)
            else (Inr result, w'))"
  using assms whitelisted_iff [of "redux_action.type a"]
  by (auto simp: SocketUpdate_def Let_def)

text \<open>
  C8. The middleware is claimed to emit if and only if the action's type is
  \<^verbatim>\<open>MAKE_MOVE\<close> or \<^verbatim>\<open>END_TURN\<close>. The test of line 40 reads the whitelist, an object
  literal, at \<^verbatim>\<open>action.type\<close>, and for the type \<^verbatim>\<open>constructor\<close> the read finds
  \<^verbatim>\<open>Object.prototype.constructor\<close>, a function, which is truthy: the action, of neither
  whitelisted type, is tagged and emitted.
\<close>

theorem SocketUpdate_emits_inherited_type:
  "redux_action.type (plain_action ''constructor'') \<noteq> ''MAKE_MOVE''
   \<and> redux_action.type (plain_action ''constructor'') \<noteq> ''END_TURN''
   \<and> SocketUpdate counting_reducer 0
        (Multiplayer None \<lparr>state_id = 0\<rparr> [plain_action ''constructor''])
      = (Inr 0,
         \<lparr>state = \<lparr>state_id = 1\<rparr>,
          actions = [\<lparr>type = ''constructor'', action_id = Some 0,
                      action_gameid = Some ''default'', action_player = Some None\<rparr>],
          gameid = ''default'', player = None,
          socket = Some [(''action'', Action_ref 0)]\<rparr>)"
  by (simp add: SocketUpdate_def counting_reducer_def Multiplayer_def plain_action_def deref_def
        whiteListedActions_def table_val_def table_get_def Object_prototype_def)

text \<open>
  On an instance whose socket is \<^verbatim>\<open>null\<close>, line 44 throws for an action that passes
  the test of line 40, after \<^verbatim>\<open>next\<close> has run and the action has been tagged;
  \<^verbatim>\<open>updateGameID\<close> on the same instance sends nothing and returns.
\<close>

lemma SocketUpdate_null_socket:
  "SocketUpdate counting_reducer 0
     (Multiplayer (Some None) \<lparr>state_id = 0\<rparr> [plain_action ''MAKE_MOVE''])
   = (Inl TypeError,
      \<lparr>state = \<lparr>state_id = 1\<rparr>,
       actions = [\<lparr>type = ''MAKE_MOVE'', action_id = Some 0,
                   action_gameid = Some ''default'', action_player = Some None\<rparr>],
       gameid = ''default'', player = None, socket = None\<rparr>)"
  by (simp add: SocketUpdate_def counting_reducer_def Multiplayer_def plain_action_def deref_def
        whiteListedActions_def table_val_def table_get_def)




end
